theory Spec2Isabelle
  imports Complex_Main
begin

section \<open>Data model of routes.py\<close>

text \<open>
  The tables the routes read and write. Column values are modelled as the routes use them:
  statuses and tiers are strings, prices and totals are exact rationals (a nullable column
  is an option), timestamps are natural numbers.
\<close>

record service =
  id_service :: int
  name_service :: string
  price_basic :: "rat option"
  price_standard :: "rat option"
  price_premium :: "rat option"
  active :: bool

record order =
  id_order :: int
  first_name :: string
  last_name :: string
  email :: string
  phone :: string
  service_id :: int
  service_tier :: string
  total_amount :: rat
  current_position :: string
  target_position :: string
  industry :: string
  experience_years :: string
  career_goals :: string
  special_requirements :: string
  uploaded_resume_path :: "string option"
  uploaded_cover_letter_path :: "string option"
  uploaded_job_description_path :: "string option"
  status :: string
  payment_status :: string
  stripe_session_id :: "string option"
  admin_notes :: string
  updated_at :: nat
  completed_at :: "nat option"

record order_tracking =
  tracking_order_id :: int
  tracking_note :: string
  tracking_created_at :: nat

datatype mail_kind = OrderConfirmation | PaymentConfirmation | StatusUpdate

text \<open>A sent message: which of the three templates, for which order, to which recipients.\<close>

record message =
  kind :: mail_kind
  about_order :: int
  recipients :: "string list"

text \<open>
  Everything a request can change: the three tables, the database's next primary key for
  orders, the upload directory, the messages handed to the mail transport, the error log,
  the flashed messages and the analytics events.
\<close>

record world =
  orders :: "order list"
  trackings :: "order_tracking list"
  services :: "service list"
  next_order_id :: int
  files :: "string list"
  outbox :: "message list"
  logged :: "string list"
  flashes :: "(string \<times> string) list"
  events :: "(string \<times> int) list"

subsection \<open>The payment provider's interface\<close>

record line_item =
  currency :: string
  product_name :: string
  product_description :: string
  unit_amount :: int
  quantity :: nat

record checkout_request =
  payment_method_types :: "string list"
  line_items :: "line_item list"
  mode :: string
  success_url :: string
  cancel_url :: string
  client_reference_id :: string
  customer_email :: string

record checkout_session =
  session_id :: string
  session_url :: "string option"

subsection \<open>External collaborators\<close>

text \<open>
  The Python type of a price or total read from its column: a \<open>float\<close> for a Float
  column, a \<open>Decimal\<close> for a Numeric one. The column is declared in models.py, which is
  not part of the sources, so the type is a parameter. A value of either type is a rational
  number; the type decides how Python multiplies it.
\<close>

datatype column_type = FloatColumn | NumericColumn

text \<open>
  What the routes get from outside themselves: the configured provider key, the provider's
  session-creation call (\<open>Inl\<close> is a raised exception), the mail object and its send
  (\<open>False\<close> is a raised exception), the clock, the upload folder and whether saving a
  file there raises, werkzeug's \<open>secure_filename\<close>, Python's \<open>str.title\<close> and
  \<open>str\<close> on integers, the request's host URL with trailing slashes stripped, the
  database's comparison of the integer primary key with a textual query parameter, and the
  Python type of the amount columns.
\<close>

record env =
  stripe_api_key :: "string option"
  stripe_create :: "checkout_request \<Rightarrow> string + checkout_session"
  mail_configured :: bool
  mail_send :: "message \<Rightarrow> bool"
  utcnow :: nat
  now_stamp :: string
  upload_folder :: string
  save_raises :: "string \<Rightarrow> bool"
  secure_filename :: "string \<Rightarrow> string"
  title :: "string \<Rightarrow> string"
  str_int :: "int \<Rightarrow> string"
  domain :: string
  coerce_id :: "string \<Rightarrow> int option"
  amount_type :: column_type

subsection \<open>Submitted forms\<close>

text \<open>
  The forms are validated by forms.py; \<open>validates\<close> is the outcome of
  \<open>validate_on_submit\<close>. An upload field holds the client's file name, or nothing.
\<close>

record order_form =
  validates :: bool
  f_first_name :: string
  f_last_name :: string
  f_email :: string
  f_phone :: string
  f_service_id :: int
  f_service_tier :: string
  f_current_position :: string
  f_target_position :: string
  f_industry :: string
  f_experience_years :: string
  f_career_goals :: string
  f_special_requirements :: string
  f_current_resume :: "string option"
  f_cover_letter :: "string option"
  f_job_description :: "string option"

record order_status_form =
  status_validates :: bool
  f_status :: string
  f_admin_notes :: string

subsection \<open>Responses\<close>

datatype target =
    Index
  | OrderPage
  | CreateCheckoutSession int
  | AdminOrderDetail int
  | External string

datatype response =
    Render string
  | RenderOrder string order
  | RenderTracking order "order_tracking list"
  | Redirect target
  | NotFound404
  | ServerError

section \<open>Helpers\<close>

definition flash :: "string \<Rightarrow> string \<Rightarrow> world \<Rightarrow> world" where
  "flash msg category w = w\<lparr>flashes := flashes w @ [(msg, category)]\<rparr>"

definition log_error :: "string \<Rightarrow> world \<Rightarrow> world" where
  "log_error msg w = w\<lparr>logged := logged w @ [msg]\<rparr>"

definition track_event :: "string \<Rightarrow> int \<Rightarrow> world \<Rightarrow> world" where
  "track_event name oid w = w\<lparr>events := events w @ [(name, oid)]\<rparr>"

text \<open>\<open>Order.query.get\<close>: the row with that primary key.\<close>

definition get_order :: "int \<Rightarrow> world \<Rightarrow> order option" where
  "get_order oid w = find (\<lambda>r. id_order r = oid) (orders w)"

definition get_service :: "int \<Rightarrow> world \<Rightarrow> service option" where
  "get_service sid w = find (\<lambda>s. id_service s = sid) (services w)"

text \<open>Committing a changed row: the row with its primary key is replaced.\<close>

definition commit_order :: "order \<Rightarrow> world \<Rightarrow> world" where
  "commit_order r w =
     w\<lparr>orders := map (\<lambda>x. if id_order x = id_order r then r else x) (orders w)\<rparr>"

text \<open>Python's \<open>int\<close> on a number: truncation toward zero.\<close>

definition py_int :: "rat \<Rightarrow> int" where
  "py_int x = (if 0 \<le> x then \<lfloor>x\<rfloor> else \<lceil>x\<rceil>)"

text \<open>Rounding to the nearest integer, a tie going to the even neighbour.\<close>

definition round_half_even :: "rat \<Rightarrow> int" where
  "round_half_even x =
     (let f = \<lfloor>x\<rfloor>; d = x - of_int f
      in if d < 1 / 2 then f
         else if 1 / 2 < d then f + 1
         else if even f then f else f + 1)"

text \<open>The specification's \<open>round\<close>: Python's, which rounds so.\<close>

definition spec_round :: "rat \<Rightarrow> int" where
  "spec_round x = round_half_even x"

subsection \<open>Python's float arithmetic\<close>

text \<open>
  A Python float is an IEEE 754 double: a 53-bit significand times a power of two. The
  result of an operation is the exact result rounded to the nearest double, a tie going to
  the even significand. \<open>to_double\<close> is that rounding, for every magnitude below the
  overflow threshold \<open>2 ^ 1024\<close> (subnormal results included); a result at or beyond
  the threshold, Python's \<open>inf\<close>, is not represented.
\<close>

fun bit_length :: "nat \<Rightarrow> nat" where
  "bit_length n = (if n = 0 then 0 else Suc (bit_length (n div 2)))"

declare bit_length.simps [simp del]

text \<open>The exponent of the leading bit of a positive rational: \<open>\<lfloor>log\<^sub>2 x\<rfloor>\<close>.\<close>

definition binary_exponent :: "rat \<Rightarrow> int" where
  "binary_exponent x =
     (if 1 \<le> x then int (bit_length (nat \<lfloor>x\<rfloor>)) - 1
      else - int (bit_length (nat (\<lceil>1 / x\<rceil> - 1))))"

definition power2 :: "int \<Rightarrow> rat" where
  "power2 k = (if 0 \<le> k then 2 ^ nat k else 1 / 2 ^ nat (- k))"

definition to_double :: "rat \<Rightarrow> rat" where
  "to_double x =
     (if x = 0 then 0
      else let a = \<bar>x\<bar>;
               ulp = power2 (max (binary_exponent a) (- 1022) - 52);
               m = round_half_even (a / ulp)
           in sgn x * of_int m * ulp)"

text \<open>\<open>amount * 100\<close> as Python computes it: a float product is rounded to a double, a
  Decimal product is exact.\<close>

definition times_100 :: "column_type \<Rightarrow> rat \<Rightarrow> rat" where
  "times_100 t x = (case t of FloatColumn \<Rightarrow> to_double (x * 100) | NumericColumn \<Rightarrow> x * 100)"

section \<open>Notification emails\<close>

text \<open>
  Each sender returns at once when the mail object is absent, builds the message (which
  reads \<open>order.service.name\<close> and so raises when the order has no service row), and hands
  it to the transport, which may raise. \<open>Inl\<close> is the raised exception.
\<close>

definition send_order_confirmation_email :: "env \<Rightarrow> order \<Rightarrow> world \<Rightarrow> string + world" where
  "send_order_confirmation_email e r w =
     (if \<not> mail_configured e then Inr w
      else case get_service (service_id r) w of
        None \<Rightarrow> Inl ''AttributeError''
      | Some s \<Rightarrow>
          let msg = \<lparr>kind = OrderConfirmation, about_order = id_order r, recipients = [email r]\<rparr>
          in if mail_send e msg then Inr (w\<lparr>outbox := outbox w @ [msg]\<rparr>)
             else Inl ''send failed'')"

definition send_payment_confirmation_email :: "env \<Rightarrow> order \<Rightarrow> world \<Rightarrow> string + world" where
  "send_payment_confirmation_email e r w =
     (if \<not> mail_configured e then Inr w
      else case get_service (service_id r) w of
        None \<Rightarrow> Inl ''AttributeError''
      | Some s \<Rightarrow>
          let msg = \<lparr>kind = PaymentConfirmation, about_order = id_order r, recipients = [email r]\<rparr>
          in if mail_send e msg then Inr (w\<lparr>outbox := outbox w @ [msg]\<rparr>)
             else Inl ''send failed'')"

definition send_status_update_email :: "env \<Rightarrow> order \<Rightarrow> string \<Rightarrow> world \<Rightarrow> string + world" where
  "send_status_update_email e r old_status w =
     (if \<not> mail_configured e \<or> old_status = status r then Inr w
      else case get_service (service_id r) w of
        None \<Rightarrow> Inl ''AttributeError''
      | Some s \<Rightarrow>
          let msg = \<lparr>kind = StatusUpdate, about_order = id_order r, recipients = [email r]\<rparr>
          in if mail_send e msg then Inr (w\<lparr>outbox := outbox w @ [msg]\<rparr>)
             else Inl ''send failed'')"

text \<open>The callers' \<open>try ... except Exception\<close>: a raised send is logged and dropped.\<close>

definition swallow :: "string \<Rightarrow> world \<Rightarrow> string + world \<Rightarrow> world" where
  "swallow what w res = (case res of Inr w' \<Rightarrow> w' | Inl err \<Rightarrow> log_error (what @ err) w)"

section \<open>Routes\<close>

subsection \<open>track_order\<close>

definition track_order :: "env \<Rightarrow> string option \<Rightarrow> string option \<Rightarrow> world \<Rightarrow> response \<times> world" where
  "track_order e order_id email_arg w =
     (case (order_id, email_arg) of
        (Some oid, Some em) \<Rightarrow>
          if oid = [] \<or> em = [] then (Render ''track_order.html'', w)
          else (case find (\<lambda>r. coerce_id e oid = Some (id_order r) \<and> email r = em) (orders w) of
             None \<Rightarrow>
               (Render ''track_order.html'',
                flash ''Order not found. Please check your order ID and email.'' ''error'' w)
           | Some r \<Rightarrow>
               let tracking_updates =
                     rev (sort_key tracking_created_at
                       (filter (\<lambda>t. tracking_order_id t = id_order r) (trackings w)))
               in (RenderTracking r tracking_updates, track_event ''order_tracked'' (id_order r) w))
      | _ \<Rightarrow> (Render ''track_order.html'', w))"

subsection \<open>submit_order\<close>

definition tier_prices :: "service \<Rightarrow> string \<Rightarrow> rat option" where
  "tier_prices s t =
     (if t = ''basic'' then price_basic s
      else if t = ''standard'' then price_standard s
      else if t = ''premium'' then price_premium s
      else None)"

text \<open>Modelled from the spec: the column defaults of the Order model (models.py is not
  part of the sources): a new order has \<open>status=pending\<close>, \<open>payment_status=unpaid\<close>, no
  session token, no upload paths and no completion time.\<close>

definition new_order :: "order_form \<Rightarrow> rat \<Rightarrow> order" where
  "new_order form amount =
     \<lparr>id_order = 0,
      first_name = f_first_name form,
      last_name = f_last_name form,
      email = f_email form,
      phone = f_phone form,
      service_id = f_service_id form,
      service_tier = f_service_tier form,
      total_amount = amount,
      current_position = f_current_position form,
      target_position = f_target_position form,
      industry = f_industry form,
      experience_years = f_experience_years form,
      career_goals = f_career_goals form,
      special_requirements = f_special_requirements form,
      uploaded_resume_path = None,
      uploaded_cover_letter_path = None,
      uploaded_job_description_path = None,
      status = ''pending'',
      payment_status = ''unpaid'',
      stripe_session_id = None,
      admin_notes = [],
      updated_at = 0,
      completed_at = None\<rparr>"

text \<open>One upload field: nothing to do without a file; otherwise the file is saved under
  the prefixed, time-stamped, sanitised name and that name is returned. \<open>None\<close> is a
  raised save.\<close>

definition save_upload :: "env \<Rightarrow> string \<Rightarrow> string option \<Rightarrow> world \<Rightarrow> (string option \<times> world) option" where
  "save_upload e prefix field w =
     (case field of
        None \<Rightarrow> Some (None, w)
      | Some fname \<Rightarrow>
          let filename = prefix @ now_stamp e @ ''_'' @ secure_filename e fname;
              file_path = upload_folder e @ ''/'' @ filename
          in if save_raises e file_path then None
             else Some (Some filename, w\<lparr>files := files w @ [file_path]\<rparr>))"

text \<open>\<open>db.session.add(order); db.session.commit()\<close>: the row gets the next key.\<close>

definition add_order :: "order \<Rightarrow> world \<Rightarrow> order \<times> world" where
  "add_order r w =
     (let r' = r\<lparr>id_order := next_order_id w\<rparr>
      in (r', w\<lparr>orders := orders w @ [r'], next_order_id := next_order_id w + 1\<rparr>))"

definition submit_order :: "env \<Rightarrow> order_form \<Rightarrow> world \<Rightarrow> response \<times> world" where
  "submit_order e form w =
     (if \<not> validates form then (Render ''order.html'', w)
      else case get_service (f_service_id form) w of
        None \<Rightarrow> (Render ''order.html'', flash ''Invalid service selected.'' ''error'' w)
      | Some svc \<Rightarrow>
         (case tier_prices svc (f_service_tier form) of
            None \<Rightarrow> (Render ''order.html'', flash ''Invalid service tier selected.'' ''error'' w)
          | Some amount \<Rightarrow>
              if amount = 0
              then (Render ''order.html'', flash ''Invalid service tier selected.'' ''error'' w)
              else
               (case save_upload e ''resume_'' (f_current_resume form) w of
                  None \<Rightarrow> (ServerError, w)
                | Some (p1, w1) \<Rightarrow>
                   (case save_upload e ''cover_'' (f_cover_letter form) w1 of
                      None \<Rightarrow> (ServerError, w1)
                    | Some (p2, w2) \<Rightarrow>
                       (case save_upload e ''job_'' (f_job_description form) w2 of
                          None \<Rightarrow> (ServerError, w2)
                        | Some (p3, w3) \<Rightarrow>
                           let r0 = (new_order form amount)
                                      \<lparr>uploaded_resume_path := p1,
                                       uploaded_cover_letter_path := p2,
                                       uploaded_job_description_path := p3\<rparr>;
                               (r, w4) = add_order r0 w3;
                               w5 = swallow ''Failed to send confirmation email: '' w4
                                      (send_order_confirmation_email e r w4)
                           in (Redirect (CreateCheckoutSession (id_order r)), w5))))))"

subsection \<open>create_checkout_session\<close>

text \<open>\<open>order.full_name\<close>, a property of the Order model: first and last name.\<close>

definition full_name :: "order \<Rightarrow> string" where
  "full_name r = first_name r @ '' '' @ last_name r"

definition build_checkout_request :: "env \<Rightarrow> order \<Rightarrow> service \<Rightarrow> checkout_request" where
  "build_checkout_request e r svc =
     \<lparr>payment_method_types = [''card''],
      line_items =
        [\<lparr>currency = ''usd'',
          product_name = name_service svc @ '' - '' @ title e (service_tier r),
          product_description = ''Resume writing service for '' @ full_name r,
          unit_amount = py_int (times_100 (amount_type e) (total_amount r)),
          quantity = 1\<rparr>],
      mode = ''payment'',
      success_url = domain e @ ''/payment-success?session_id={CHECKOUT_SESSION_ID}'',
      cancel_url = domain e @ ''/payment-cancel?order_id='' @ str_int e (id_order r),
      client_reference_id = str_int e (id_order r),
      customer_email = email r\<rparr>"

definition payment_error :: "string \<Rightarrow> world \<Rightarrow> response \<times> world" where
  "payment_error err w =
     (Redirect OrderPage,
      flash ''Payment processing error. Please try again or contact support.'' ''error''
        (log_error (''Stripe error: '' @ err) w))"

definition create_checkout_session :: "env \<Rightarrow> int \<Rightarrow> world \<Rightarrow> response \<times> world" where
  "create_checkout_session e order_id w =
     (case get_order order_id w of
        None \<Rightarrow> (NotFound404, w)
      | Some r \<Rightarrow>
          (case stripe_api_key e of
             None \<Rightarrow>
               (Redirect Index,
                flash ''Payment system is not configured. Please contact support.'' ''error'' w)
           | Some k \<Rightarrow>
               if k = []
               then (Redirect Index,
                     flash ''Payment system is not configured. Please contact support.'' ''error'' w)
               else
                (case get_service (service_id r) w of
                   None \<Rightarrow> payment_error ''AttributeError'' w
                 | Some svc \<Rightarrow>
                    (case stripe_create e (build_checkout_request e r svc) of
                       Inl err \<Rightarrow> payment_error err w
                     | Inr cs \<Rightarrow>
                         let w' = commit_order (r\<lparr>stripe_session_id := Some (session_id cs)\<rparr>) w
                         in (Redirect (case session_url cs of
                                         None \<Rightarrow> OrderPage
                                       | Some u \<Rightarrow> if u = [] then OrderPage else External u),
                             w')))))"

subsection \<open>payment_success\<close>

definition payment_success :: "env \<Rightarrow> string option \<Rightarrow> world \<Rightarrow> response \<times> world" where
  "payment_success e session_arg w =
     (case session_arg of
        None \<Rightarrow> (Render ''success.html'', w)
      | Some sid \<Rightarrow>
          if sid = [] then (Render ''success.html'', w)
          else (case find (\<lambda>r. stripe_session_id r = Some sid) (orders w) of
             None \<Rightarrow> (Render ''success.html'', w)
           | Some r \<Rightarrow>
               let r' = r\<lparr>payment_status := ''paid'', status := ''in_progress''\<rparr>;
                   w1 = commit_order r' w;
                   w2 = swallow ''Failed to send payment confirmation email: '' w1
                          (send_payment_confirmation_email e r' w1)
               in (RenderOrder ''success.html'' r', w2)))"

subsection \<open>admin_update_order\<close>

definition admin_update_order :: "env \<Rightarrow> int \<Rightarrow> order_status_form \<Rightarrow> world \<Rightarrow> response \<times> world" where
  "admin_update_order e order_id form w =
     (case get_order order_id w of
        None \<Rightarrow> (NotFound404, w)
      | Some r \<Rightarrow>
          if status_validates form then
            let old_status = status r;
                r1 = r\<lparr>status := f_status form,
                       admin_notes := f_admin_notes form,
                       updated_at := utcnow e\<rparr>;
                r2 = (if f_status form = ''completed'' \<and> old_status \<noteq> ''completed''
                      then r1\<lparr>completed_at := Some (utcnow e)\<rparr> else r1);
                w1 = flash ''Order updated successfully.'' ''success'' (commit_order r2 w);
                w2 = swallow ''Failed to send status update email: '' w1
                       (send_status_update_email e r2 old_status w1)
            in (Redirect (AdminOrderDetail order_id), w2)
          else (Redirect (AdminOrderDetail order_id), w))"

section \<open>Example values\<close>

text \<open>A one-service catalogue, one pending order that already holds a session token, and
  collaborators that all succeed; then a provider that raises and a mail transport that
  raises.\<close>

definition example_service :: service where
  "example_service =
     \<lparr>id_service = 1, name_service = ''Executive Resume'',
      price_basic = Some 99, price_standard = Some 0, price_premium = Some 299,
      active = True\<rparr>"

definition example_order :: order where
  "example_order =
     \<lparr>id_order = 1, first_name = ''Ada'', last_name = ''Byron'', email = ''ada@example.org'',
      phone = ''555'', service_id = 1, service_tier = ''premium'', total_amount = 299,
      current_position = ''analyst'', target_position = ''engineer'', industry = ''software'',
      experience_years = ''5'', career_goals = ''grow'', special_requirements = [],
      uploaded_resume_path = None, uploaded_cover_letter_path = None,
      uploaded_job_description_path = None,
      status = ''pending'', payment_status = ''unpaid'',
      stripe_session_id = Some ''cs_test_1'', admin_notes = [], updated_at = 0,
      completed_at = None\<rparr>"

definition example_world :: world where
  "example_world =
     \<lparr>orders = [example_order], trackings = [], services = [example_service],
      next_order_id = 2, files = [], outbox = [], logged = [], flashes = [], events = []\<rparr>"

definition example_env :: env where
  "example_env =
     \<lparr>stripe_api_key = Some ''sk_test'',
      stripe_create = (\<lambda>req. Inr \<lparr>session_id = ''cs_test_1'', session_url = Some ''https://pay''\<rparr>),
      mail_configured = True,
      mail_send = (\<lambda>m. True),
      utcnow = 42,
      now_stamp = ''20240101_000000'',
      upload_folder = ''uploads'',
      save_raises = (\<lambda>p. False),
      secure_filename = (\<lambda>n. n),
      title = (\<lambda>s. s),
      str_int = (\<lambda>i. if i = 1 then ''1'' else ''2''),
      domain = ''http://localhost'',
      coerce_id = (\<lambda>s. if s = ''1'' then Some 1 else if s = ''2'' then Some 2 else None),
      amount_type = NumericColumn\<rparr>"

definition failing_env :: env where
  "failing_env = example_env\<lparr>stripe_create := (\<lambda>req. Inl ''timeout'')\<rparr>"

definition raising_env :: env where
  "raising_env = example_env\<lparr>mail_send := (\<lambda>m. False)\<rparr>"

definition example_form :: order_form where
  "example_form =
     \<lparr>validates = True, f_first_name = ''Grace'', f_last_name = ''Hopper'',
      f_email = ''grace@example.org'', f_phone = ''556'', f_service_id = 1,
      f_service_tier = ''premium'', f_current_position = ''officer'',
      f_target_position = ''admiral'', f_industry = ''navy'', f_experience_years = ''9'',
      f_career_goals = ''lead'', f_special_requirements = [],
      f_current_resume = Some ''cv.pdf'', f_cover_letter = None, f_job_description = None\<rparr>"

text \<open>The same catalogue with amounts in a Float column: a service whose basic tier is
  priced at the float 19.99, the form that orders it, and the order that results.\<close>

definition float_service :: service where
  "float_service =
     \<lparr>id_service = 1, name_service = ''Resume Review'',
      price_basic = Some (to_double (1999 / 100)), price_standard = None, price_premium = None,
      active = True\<rparr>"

definition float_env :: env where
  "float_env = example_env\<lparr>amount_type := FloatColumn\<rparr>"

definition float_form :: order_form where
  "float_form = example_form\<lparr>f_service_tier := ''basic'', f_current_resume := None\<rparr>"

definition float_world :: world where
  "float_world = example_world\<lparr>orders := [], services := [float_service], next_order_id := 1\<rparr>"

definition float_order :: order where
  "float_order =
     (new_order float_form (to_double (1999 / 100)))\<lparr>id_order := 1\<rparr>"

section \<open>Auxiliary facts\<close>

lemmas example_defs =
  example_world_def example_order_def example_env_def example_service_def

lemmas route_defs =
  commit_order_def swallow_def get_service_def get_order_def flash_def log_error_def Let_def

lemma orders_flash [simp]: "orders (flash m c w) = orders w"
  by (simp add: flash_def)

lemma orders_log_error [simp]: "orders (log_error m w) = orders w"
  by (simp add: log_error_def)

lemma trackings_flash [simp]: "trackings (flash m c w) = trackings w"
  by (simp add: flash_def)

lemma trackings_log_error [simp]: "trackings (log_error m w) = trackings w"
  by (simp add: log_error_def)

lemma trackings_commit_order [simp]: "trackings (commit_order r w) = trackings w"
  by (simp add: commit_order_def)

lemma services_commit_order [simp]: "services (commit_order r w) = services w"
  by (simp add: commit_order_def)

lemma get_service_commit_order [simp]: "get_service sid (commit_order r w) = get_service sid w"
  by (simp add: get_service_def)

lemma get_service_flash [simp]: "get_service sid (flash m c w) = get_service sid w"
  by (simp add: get_service_def flash_def)

lemma send_payment_cases:
  "send_payment_confirmation_email e r w = Inr w' \<Longrightarrow>
     orders w' = orders w \<and> trackings w' = trackings w"
  by (auto simp: send_payment_confirmation_email_def Let_def split: if_splits option.splits)

lemma send_order_cases:
  "send_order_confirmation_email e r w = Inr w' \<Longrightarrow>
     orders w' = orders w \<and> trackings w' = trackings w"
  by (auto simp: send_order_confirmation_email_def Let_def split: if_splits option.splits)

lemma send_status_cases:
  "send_status_update_email e r old w = Inr w' \<Longrightarrow>
     orders w' = orders w \<and> trackings w' = trackings w"
  by (auto simp: send_status_update_email_def Let_def split: if_splits option.splits)

lemma orders_swallow_payment [simp]:
  "orders (swallow what w (send_payment_confirmation_email e r w)) = orders w"
  by (cases "send_payment_confirmation_email e r w") (auto simp: swallow_def dest: send_payment_cases)

lemma orders_swallow_order [simp]:
  "orders (swallow what w (send_order_confirmation_email e r w)) = orders w"
  by (cases "send_order_confirmation_email e r w") (auto simp: swallow_def dest: send_order_cases)

lemma orders_swallow_status [simp]:
  "orders (swallow what w (send_status_update_email e r old w)) = orders w"
  by (cases "send_status_update_email e r old w") (auto simp: swallow_def dest: send_status_cases)

lemma trackings_swallow_status [simp]:
  "trackings (swallow what w (send_status_update_email e r old w)) = trackings w"
  by (cases "send_status_update_email e r old w") (auto simp: swallow_def dest: send_status_cases)

lemma find_replace_row:
  "find P xs = Some r \<Longrightarrow> P r' \<Longrightarrow> id_order r' = id_order r \<Longrightarrow>
     find P (map (\<lambda>x. if id_order x = id_order r' then r' else x) xs) = Some r'"
  by (induction xs) (auto split: if_splits)

lemma replace_row_twice:
  "map (\<lambda>x. if id_order x = id_order r then r else x)
     (map (\<lambda>x. if id_order x = id_order r then r else x) xs) =
   map (\<lambda>x. if id_order x = id_order r then r else x) xs"
  by (induction xs) auto

lemma commit_order_twice: "commit_order r (commit_order r w) = commit_order r w"
  by (simp add: commit_order_def replace_row_twice)

lemma get_order_commit:
  "get_order oid w = Some r \<Longrightarrow> id_order r' = id_order r \<Longrightarrow>
     get_order oid (commit_order r' w) = Some r'"
  unfolding get_order_def commit_order_def
  using find_replace_row [of "\<lambda>x. id_order x = oid" "orders w" r r']
  by (auto simp: find_Some_iff)

lemma payment_success_found:
  assumes "sid \<noteq> []" and "find (\<lambda>r. stripe_session_id r = Some sid) (orders w) = Some r"
  shows "payment_success e (Some sid) w =
    (RenderOrder ''success.html'' (r\<lparr>payment_status := ''paid'', status := ''in_progress''\<rparr>),
     swallow ''Failed to send payment confirmation email: ''
       (commit_order (r\<lparr>payment_status := ''paid'', status := ''in_progress''\<rparr>) w)
       (send_payment_confirmation_email e (r\<lparr>payment_status := ''paid'', status := ''in_progress''\<rparr>)
          (commit_order (r\<lparr>payment_status := ''paid'', status := ''in_progress''\<rparr>) w)))"
  using assms by (simp add: payment_success_def Let_def)

lemma outbox_commit_order [simp]: "outbox (commit_order r w) = outbox w"
  by (simp add: commit_order_def)

lemma send_payment_ok:
  "mail_configured e \<Longrightarrow> get_service (service_id r) w = Some s \<Longrightarrow>
   mail_send e \<lparr>kind = PaymentConfirmation, about_order = id_order r, recipients = [email r]\<rparr> \<Longrightarrow>
   send_payment_confirmation_email e r w =
     Inr (w\<lparr>outbox := outbox w @
       [\<lparr>kind = PaymentConfirmation, about_order = id_order r, recipients = [email r]\<rparr>]\<rparr>)"
  by (simp add: send_payment_confirmation_email_def)

lemma get_order_cong: "orders w' = orders w \<Longrightarrow> get_order oid w' = get_order oid w"
  by (simp add: get_order_def)

lemma admin_update_order_orders:
  assumes "get_order oid w = Some r" and "status_validates form"
  shows "orders (snd (admin_update_order e oid form w)) =
     orders (commit_order
       (if f_status form = ''completed'' \<and> status r \<noteq> ''completed''
        then r\<lparr>status := f_status form, admin_notes := f_admin_notes form,
               updated_at := utcnow e, completed_at := Some (utcnow e)\<rparr>
        else r\<lparr>status := f_status form, admin_notes := f_admin_notes form,
               updated_at := utcnow e\<rparr>) w)"
  using assms by (simp add: admin_update_order_def Let_def)

lemma admin_update_order_row:
  assumes "get_order oid w = Some r" and "status_validates form"
  shows "get_order oid (snd (admin_update_order e oid form w)) =
     Some (if f_status form = ''completed'' \<and> status r \<noteq> ''completed''
        then r\<lparr>status := f_status form, admin_notes := f_admin_notes form,
               updated_at := utcnow e, completed_at := Some (utcnow e)\<rparr>
        else r\<lparr>status := f_status form, admin_notes := f_admin_notes form,
               updated_at := utcnow e\<rparr>)"
proof -
  let ?r2 = "if f_status form = ''completed'' \<and> status r \<noteq> ''completed''
        then r\<lparr>status := f_status form, admin_notes := f_admin_notes form,
               updated_at := utcnow e, completed_at := Some (utcnow e)\<rparr>
        else r\<lparr>status := f_status form, admin_notes := f_admin_notes form,
               updated_at := utcnow e\<rparr>"
  have "id_order ?r2 = id_order r" by simp
  then have "get_order oid (commit_order ?r2 w) = Some ?r2"
    using get_order_commit [OF assms(1)] by blast
  then show ?thesis
    using get_order_cong [OF admin_update_order_orders [OF assms, of e], of oid] by simp
qed

lemma admin_update_order_invalid:
  "\<not> status_validates form \<Longrightarrow> snd (admin_update_order e oid form w) = w"
  by (simp add: admin_update_order_def split: option.splits)

lemma py_int_of_int: "py_int (of_int n) = n"
  by (simp add: py_int_def)

lemma spec_round_of_int: "spec_round (of_int n) = n"
  by (simp add: spec_round_def round_half_even_def)

lemma to_double_19_99: "to_double (1999 / 100) = 5626684784446013 / 281474976710656"
  by code_simp

lemma float_19_99_times_100: "py_int (times_100 FloatColumn (to_double (1999 / 100))) = 1998"
  by code_simp

lemma float_19_99_rounded: "spec_round (to_double (1999 / 100) * 100) = 1999"
  by code_simp

lemma unit_amount_numeric_whole_cents:
  assumes "amount_type e = NumericColumn" and "total_amount r * 100 = of_int n"
  shows "map unit_amount (line_items (build_checkout_request e r svc)) = [n] \<and>
         spec_round (total_amount r * 100) = n"
  using assms
  by (simp add: build_checkout_request_def times_100_def py_int_of_int spec_round_of_int)

lemma create_checkout_session_found:
  assumes "get_order oid w = Some r" and "stripe_api_key e = Some k" and "k \<noteq> []"
    and "get_service (service_id r) w = Some svc"
  shows "create_checkout_session e oid w =
     (case stripe_create e (build_checkout_request e r svc) of
        Inl err \<Rightarrow> payment_error err w
      | Inr cs \<Rightarrow>
          (Redirect (case session_url cs of
                       None \<Rightarrow> OrderPage
                     | Some u \<Rightarrow> if u = [] then OrderPage else External u),
           commit_order (r\<lparr>stripe_session_id := Some (session_id cs)\<rparr>) w))"
  using assms by (auto simp: create_checkout_session_def Let_def split: sum.splits)

lemma save_upload_ok:
  "\<forall>path. \<not> save_raises e path \<Longrightarrow>
   \<exists>p w'. save_upload e prefix field w = Some (p, w') \<and> orders w' = orders w \<and>
     next_order_id w' = next_order_id w \<and> services w' = services w \<and> outbox w' = outbox w"
  by (cases field) (simp_all add: save_upload_def Let_def)

lemma save_upload_orders:
  "save_upload e prefix field w = Some (p, w') \<Longrightarrow> orders w' = orders w"
  by (cases field) (auto simp: save_upload_def Let_def split: if_splits)

lemma submit_order_rejects_tier:
  assumes "validates form" and "get_service (f_service_id form) w = Some svc"
    and "tier_prices svc (f_service_tier form) = None \<or> tier_prices svc (f_service_tier form) = Some 0"
  shows "submit_order e form w =
    (Render ''order.html'', flash ''Invalid service tier selected.'' ''error'' w)"
  using assms by (auto simp: submit_order_def)

lemma save_upload_logged:
  "save_upload e prefix field w = Some (p, w') \<Longrightarrow> logged w' = logged w"
  by (cases field) (auto simp: save_upload_def Let_def split: if_splits)

lemma submit_order_creates:
  assumes v: "validates form" and s: "get_service (f_service_id form) w = Some svc"
    and p: "tier_prices svc (f_service_tier form) = Some amount" and nz: "amount \<noteq> 0"
    and ok: "\<forall>path. \<not> save_raises e path"
  shows "\<exists>r w4. orders w4 = orders w @ [r] \<and> outbox w4 = outbox w \<and>
      logged w4 = logged w \<and> total_amount r = amount \<and> status r = ''pending'' \<and> payment_status r = ''unpaid'' \<and>
      submit_order e form w =
        (Redirect (CreateCheckoutSession (id_order r)),
         swallow ''Failed to send confirmation email: '' w4
           (send_order_confirmation_email e r w4))"
proof -
  from save_upload_ok [OF ok] obtain p1 w1 where
    1: "save_upload e ''resume_'' (f_current_resume form) w = Some (p1, w1)"
       "orders w1 = orders w" "next_order_id w1 = next_order_id w" "outbox w1 = outbox w"
    by blast
  from save_upload_ok [OF ok] obtain p2 w2 where
    2: "save_upload e ''cover_'' (f_cover_letter form) w1 = Some (p2, w2)"
       "orders w2 = orders w1" "next_order_id w2 = next_order_id w1" "outbox w2 = outbox w1"
    by blast
  from save_upload_ok [OF ok] obtain p3 w3 where
    3: "save_upload e ''job_'' (f_job_description form) w2 = Some (p3, w3)"
       "orders w3 = orders w2" "next_order_id w3 = next_order_id w2" "outbox w3 = outbox w2"
    by blast
  let ?fresh = "(new_order form amount)
               \<lparr>uploaded_resume_path := p1, uploaded_cover_letter_path := p2,
                uploaded_job_description_path := p3\<rparr>"
  let ?r = "fst (add_order ?fresh w3)"
  let ?w4 = "snd (add_order ?fresh w3)"
  have a: "orders ?w4 = orders w @ [?r]"
    using 1 2 3 by (simp add: add_order_def Let_def)
  have b: "total_amount ?r = amount \<and> status ?r = ''pending'' \<and> payment_status ?r = ''unpaid''"
    by (simp add: add_order_def Let_def new_order_def)
  have c: "submit_order e form w =
        (Redirect (CreateCheckoutSession (id_order ?r)),
         swallow ''Failed to send confirmation email: '' ?w4
           (send_order_confirmation_email e ?r ?w4))"
    using v s p nz 1(1) 2(1) 3(1)
    by (simp add: submit_order_def Let_def split_beta)
  have d: "outbox ?w4 = outbox w"
    using 1 2 3 by (simp add: add_order_def Let_def)
  have l: "logged ?w4 = logged w"
    using save_upload_logged [OF 1(1)] save_upload_logged [OF 2(1)] save_upload_logged [OF 3(1)]
    by (simp add: add_order_def Let_def)
  show ?thesis using a b c d l by blast
qed

lemma submit_order_orders_changed:
  assumes "orders (snd (submit_order e form w)) \<noteq> orders w"
  shows "validates form \<and>
     (\<exists>svc amount. get_service (f_service_id form) w = Some svc \<and>
        tier_prices svc (f_service_tier form) = Some amount \<and> amount \<noteq> 0)"
  using assms
  by (auto simp: submit_order_def split: option.splits if_splits dest: save_upload_orders)

lemma logged_commit_order [simp]: "logged (commit_order r w) = logged w"
  by (simp add: commit_order_def)

lemma logged_flash [simp]: "logged (flash m c w) = logged w"
  by (simp add: flash_def)

lemma swallow_raised:
  "res = Inl err \<Longrightarrow> swallow what w res = w\<lparr>logged := logged w @ [what @ err]\<rparr>"
  by (simp add: swallow_def log_error_def)

lemma send_order_raises:
  "mail_configured e \<Longrightarrow> \<forall>m. \<not> mail_send e m \<Longrightarrow>
   \<exists>err. send_order_confirmation_email e r w = Inl err"
  by (simp add: send_order_confirmation_email_def Let_def split: option.splits)

lemma send_payment_raises:
  "mail_configured e \<Longrightarrow> \<forall>m. \<not> mail_send e m \<Longrightarrow>
   \<exists>err. send_payment_confirmation_email e r w = Inl err"
  by (simp add: send_payment_confirmation_email_def Let_def split: option.splits)

lemma send_status_raises:
  "mail_configured e \<Longrightarrow> \<forall>m. \<not> mail_send e m \<Longrightarrow> old \<noteq> status r \<Longrightarrow>
   \<exists>err. send_status_update_email e r old w = Inl err"
  by (simp add: send_status_update_email_def Let_def split: option.splits)

section \<open>Properties of the routes\<close>

subsection \<open>C1\<close>

text \<open>C1 (as amended). For every order with a stored session token, handling the
  payment-success callback twice with that token leaves the same orders table as handling it
  once, and the order then has \<open>status = in_progress\<close> and \<open>payment_status = paid\<close>.
  The route has no already-paid guard: the second call writes the same values again and
  sends the payment-confirmation mail again, so that with a working mail transport two
  confirmations are in the outbox after two calls.\<close>

theorem payment_success_twice:
  assumes sid: "sid \<noteq> []"
    and found: "find (\<lambda>x. stripe_session_id x = Some sid) (orders w) = Some r"
  shows "orders (snd (payment_success e (Some sid) (snd (payment_success e (Some sid) w)))) =
           orders (snd (payment_success e (Some sid) w)) \<and>
         map_option (\<lambda>x. (status x, payment_status x))
           (find (\<lambda>x. stripe_session_id x = Some sid)
              (orders (snd (payment_success e (Some sid) (snd (payment_success e (Some sid) w)))))) =
           Some (''in_progress'', ''paid'') \<and>
         (mail_configured e \<and> get_service (service_id r) w \<noteq> None \<and>
          mail_send e \<lparr>kind = PaymentConfirmation, about_order = id_order r, recipients = [email r]\<rparr> \<longrightarrow>
            outbox (snd (payment_success e (Some sid) (snd (payment_success e (Some sid) w)))) =
              outbox w @
                [\<lparr>kind = PaymentConfirmation, about_order = id_order r, recipients = [email r]\<rparr>,
                 \<lparr>kind = PaymentConfirmation, about_order = id_order r, recipients = [email r]\<rparr>])"
proof -
  let ?r = "r\<lparr>payment_status := ''paid'', status := ''in_progress''\<rparr>"
  let ?P = "\<lambda>x. stripe_session_id x = Some sid"
  let ?w1 = "snd (payment_success e (Some sid) w)"
  let ?w2 = "snd (payment_success e (Some sid) ?w1)"
  let ?m = "\<lparr>kind = PaymentConfirmation, about_order = id_order r, recipients = [email r]\<rparr>"
  have tok: "?P r" using found by (auto simp: find_Some_iff)
  have o1: "orders ?w1 = orders (commit_order ?r w)"
    by (simp add: payment_success_found [OF sid found])
  have f1: "find ?P (orders ?w1) = Some ?r"
    unfolding o1 commit_order_def
    using find_replace_row [OF found, of ?r] tok by simp
  have same: "?r\<lparr>payment_status := ''paid'', status := ''in_progress''\<rparr> = ?r" by simp
  have o2: "orders ?w2 = orders (commit_order ?r ?w1)"
    using payment_success_found [OF sid f1, of e] by (simp add: same)
  have "orders (commit_order ?r ?w1) = orders (commit_order ?r (commit_order ?r w))"
    using o1 by (simp add: commit_order_def)
  then have eq: "orders ?w2 = orders ?w1"
    using o1 o2 by (simp add: commit_order_twice)
  have st: "map_option (\<lambda>x. (status x, payment_status x)) (find ?P (orders ?w2)) =
              Some (''in_progress'', ''paid'')"
    using f1 eq by simp
  have mail: "outbox ?w2 = outbox w @ [?m, ?m]"
    if c: "mail_configured e" and s: "get_service (service_id r) w \<noteq> None" and ok: "mail_send e ?m"
  proof -
    from s obtain sv where sv: "get_service (service_id r) w = Some sv" by auto
    have s1: "get_service (service_id ?r) (commit_order ?r w) = Some sv" using sv by simp
    have ok': "mail_send e \<lparr>kind = PaymentConfirmation, about_order = id_order ?r, recipients = [email ?r]\<rparr>"
      using ok by simp
    have w1: "?w1 = (commit_order ?r w)\<lparr>outbox := outbox w @ [?m]\<rparr>"
      using send_payment_ok [OF c s1 ok']
      by (simp add: payment_success_found [OF sid found] swallow_def)
    have s2: "get_service (service_id ?r) (commit_order ?r ?w1) = Some sv"
      using sv by (simp add: w1 get_service_def commit_order_def)
    have "?w2 = (commit_order ?r ?w1)\<lparr>outbox := outbox ?w1 @ [?m]\<rparr>"
      using send_payment_ok [OF c s2 ok'] payment_success_found [OF sid f1, of e]
      by (simp add: same swallow_def)
    then have "outbox ?w2 = outbox ?w1 @ [?m]" by simp
    also have "outbox ?w1 = outbox w @ [?m]" by (simp add: w1)
    finally show ?thesis by simp
  qed
  show ?thesis using eq st mail by blast
qed

theorem payment_success_twice_witness:
  "orders (snd (payment_success example_env (Some ''cs_test_1'')
       (snd (payment_success example_env (Some ''cs_test_1'') example_world)))) =
     orders (snd (payment_success example_env (Some ''cs_test_1'') example_world)) \<and>
   map_option (\<lambda>x. (status x, payment_status x))
     (find (\<lambda>x. stripe_session_id x = Some ''cs_test_1'')
        (orders (snd (payment_success example_env (Some ''cs_test_1'')
           (snd (payment_success example_env (Some ''cs_test_1'') example_world)))))) =
     Some (''in_progress'', ''paid'') \<and>
   outbox (snd (payment_success example_env (Some ''cs_test_1'')
       (snd (payment_success example_env (Some ''cs_test_1'') example_world)))) =
     outbox example_world @
       [\<lparr>kind = PaymentConfirmation, about_order = 1, recipients = [''ada@example.org'']\<rparr>,
        \<lparr>kind = PaymentConfirmation, about_order = 1, recipients = [''ada@example.org'']\<rparr>]"
proof -
  have a: "''cs_test_1'' \<noteq> []" by simp
  have b: "find (\<lambda>x. stripe_session_id x = Some ''cs_test_1'') (orders example_world) =
             Some example_order"
    by (simp add: example_world_def example_order_def)
  have d1: "id_order example_order = 1" and d2: "email example_order = ''ada@example.org''"
    by (simp_all add: example_order_def)
  have c: "mail_configured example_env \<and>
      get_service (service_id example_order) example_world \<noteq> None \<and>
      mail_send example_env
        \<lparr>kind = PaymentConfirmation, about_order = 1, recipients = [''ada@example.org'']\<rparr>"
    by (simp add: get_service_def example_env_def example_world_def example_order_def
        example_service_def)
  show ?thesis
    using payment_success_twice [OF a b, of example_env, unfolded d1 d2] c by blast
qed

text \<open>The second, already-paid call is not silent: one confirmation after the first call,
  two after the second.\<close>

theorem payment_success_second_call_notifies:
  "outbox (snd (payment_success example_env (Some ''cs_test_1'') example_world)) =
     [\<lparr>kind = PaymentConfirmation, about_order = 1, recipients = [''ada@example.org'']\<rparr>] \<and>
   outbox (snd (payment_success example_env (Some ''cs_test_1'')
       (snd (payment_success example_env (Some ''cs_test_1'') example_world)))) =
     [\<lparr>kind = PaymentConfirmation, about_order = 1, recipients = [''ada@example.org'']\<rparr>,
      \<lparr>kind = PaymentConfirmation, about_order = 1, recipients = [''ada@example.org'']\<rparr>]"
  by (simp add: payment_success_def commit_order_def swallow_def Let_def
      send_payment_confirmation_email_def get_service_def
      example_world_def example_order_def example_env_def example_service_def)

subsection \<open>C2\<close>

text \<open>C2 (as amended). The admin status update stores the status the validated form
  submits, whatever the order's current status: the route has no transition table, so an
  order in any state, the terminal ones included, moves to any submitted status.\<close>

theorem admin_update_order_any_transition:
  assumes "get_order oid w = Some r" and "status_validates form"
  shows "map_option status (get_order oid (snd (admin_update_order e oid form w))) =
           Some (f_status form)"
  by (simp add: admin_update_order_row [OF assms])

theorem admin_update_order_any_transition_witness:
  "get_order 1 example_world = Some example_order \<and>
   status_validates \<lparr>status_validates = True, f_status = ''cancelled'', f_admin_notes = []\<rparr> \<and>
   map_option status (get_order 1 (snd (admin_update_order example_env 1
       \<lparr>status_validates = True, f_status = ''cancelled'', f_admin_notes = []\<rparr> example_world))) =
     Some ''cancelled''"
proof -
  have a: "get_order 1 example_world = Some example_order"
    by (simp add: get_order_def example_world_def example_order_def)
  have b: "status_validates \<lparr>status_validates = True, f_status = ''cancelled'', f_admin_notes = []\<rparr>"
    by simp
  show ?thesis
    using admin_update_order_any_transition [OF a b, of example_env] a by simp
qed

text \<open>A completed order is moved back to pending.\<close>

theorem admin_update_order_leaves_terminal_state:
  "map status (orders (example_world\<lparr>orders := [example_order\<lparr>status := ''completed''\<rparr>]\<rparr>)) =
     [''completed''] \<and>
   map status (orders (snd (admin_update_order example_env 1
       \<lparr>status_validates = True, f_status = ''pending'', f_admin_notes = []\<rparr>
       (example_world\<lparr>orders := [example_order\<lparr>status := ''completed''\<rparr>]\<rparr>)))) =
     [''pending'']"
  by (simp add: admin_update_order_def send_status_update_email_def route_defs example_defs)

subsection \<open>C3\<close>

text \<open>C3 (as amended). The admin status update never writes to the OrderTracking
  table: the table is the same after the update as before it, whether or not the status
  changed.\<close>

theorem admin_update_order_no_tracking:
  "trackings (snd (admin_update_order e oid form w)) = trackings w"
  by (simp add: admin_update_order_def Let_def split: option.splits)

theorem admin_update_order_no_tracking_witness:
  "trackings (snd (admin_update_order example_env 1
       \<lparr>status_validates = True, f_status = ''completed'', f_admin_notes = []\<rparr>
       example_world)) = trackings example_world"
  using admin_update_order_no_tracking [of example_env 1
      "\<lparr>status_validates = True, f_status = ''completed'', f_admin_notes = []\<rparr>" example_world]
  by simp

text \<open>A status change from pending to in_progress appends no tracking row.\<close>

theorem admin_update_order_tracking_counterexample:
  "map status (orders example_world) = [''pending''] \<and>
   map status (orders (snd (admin_update_order example_env 1
       \<lparr>status_validates = True, f_status = ''in_progress'', f_admin_notes = []\<rparr>
       example_world))) = [''in_progress''] \<and>
   trackings example_world = [] \<and>
   trackings (snd (admin_update_order example_env 1
       \<lparr>status_validates = True, f_status = ''in_progress'', f_admin_notes = []\<rparr>
       example_world)) = []"
  by (simp add: admin_update_order_def send_status_update_email_def route_defs example_defs)

subsection \<open>C4\<close>

text \<open>C4 (as amended). For an existing order, the update assigns \<open>completed_at\<close>
  (to the current time) if and only if the form validates, the new status is completed and
  the old status is anything other than completed, cancelled included; otherwise
  \<open>completed_at\<close> keeps its value.\<close>

theorem admin_update_order_completed_at:
  assumes "get_order oid w = Some r"
  shows "map_option completed_at (get_order oid (snd (admin_update_order e oid form w))) =
     Some (if status_validates form \<and> f_status form = ''completed'' \<and> status r \<noteq> ''completed''
           then Some (utcnow e) else completed_at r)"
proof (cases "status_validates form")
  case True
  then show ?thesis by (simp add: admin_update_order_row [OF assms True])
next
  case False
  then show ?thesis using assms by (simp add: admin_update_order_invalid)
qed

theorem admin_update_order_completed_at_witness:
  "get_order 1 example_world = Some example_order \<and>
   map_option completed_at (get_order 1 (snd (admin_update_order example_env 1
       \<lparr>status_validates = True, f_status = ''completed'', f_admin_notes = []\<rparr> example_world))) =
     Some (Some 42)"
proof -
  have a: "get_order 1 example_world = Some example_order"
    by (simp add: get_order_def example_world_def example_order_def)
  show ?thesis
    using admin_update_order_completed_at [OF a, of example_env
        "\<lparr>status_validates = True, f_status = ''completed'', f_admin_notes = []\<rparr>"] a
    by (simp add: example_order_def example_env_def)
qed

text \<open>A cancelled order that is set to completed gets a completion time.\<close>

theorem admin_update_order_completed_from_cancelled:
  "map (\<lambda>x. (status x, completed_at x))
     (orders (example_world\<lparr>orders := [example_order\<lparr>status := ''cancelled''\<rparr>]\<rparr>)) =
     [(''cancelled'', None)] \<and>
   map (\<lambda>x. (status x, completed_at x)) (orders (snd (admin_update_order example_env 1
       \<lparr>status_validates = True, f_status = ''completed'', f_admin_notes = []\<rparr>
       (example_world\<lparr>orders := [example_order\<lparr>status := ''cancelled''\<rparr>]\<rparr>)))) =
     [(''completed'', Some 42)]"
  by (simp add: admin_update_order_def send_status_update_email_def route_defs example_defs)

subsection \<open>C5\<close>

text \<open>C5. The claim is that the single line item's unit amount is the order total
  converted to cents with rounding. The route converts with \<open>int\<close>, which truncates. With
  the amounts in a Float column, the order that submit_order creates for a service priced at
  19.99 is sent to the provider with a unit amount of 1998, where rounding gives 1999.\<close>

theorem checkout_unit_amount_float_19_99:
  "orders (snd (submit_order float_env float_form float_world)) = [float_order] \<and>
   map unit_amount (line_items (build_checkout_request float_env float_order float_service)) =
     [1998] \<and>
   spec_round (total_amount float_order * 100) = 1999"
proof -
  have a: "orders (snd (submit_order float_env float_form float_world)) = [float_order]"
    by (simp add: submit_order_def save_upload_def add_order_def tier_prices_def
        send_order_confirmation_email_def new_order_def route_defs example_defs example_form_def
        float_env_def float_form_def float_world_def float_service_def float_order_def
        to_double_19_99 split_beta)
  have b: "map unit_amount (line_items (build_checkout_request float_env float_order float_service)) =
     [1998]"
    by (simp add: build_checkout_request_def float_env_def float_order_def new_order_def
        float_19_99_times_100)
  have c: "spec_round (total_amount float_order * 100) = 1999"
    by (simp add: float_order_def new_order_def float_19_99_rounded)
  show ?thesis using a b c by blast
qed

subsection \<open>C6\<close>

text \<open>C6. For an existing order with the provider configured: when the provider's
  session-creation call raises, the route logs the error, flashes the generic retry message,
  redirects to the order page and leaves the orders table as it was; when the call succeeds,
  the returned session token is on the order in the state that accompanies the redirect;
  and the orders table changes only if the provider call succeeded.\<close>

theorem create_checkout_session_failure_writes_nothing:
  assumes o: "get_order oid w = Some r" and k: "stripe_api_key e = Some k" and kn: "k \<noteq> []"
    and s: "get_service (service_id r) w = Some svc"
  shows "(stripe_create e (build_checkout_request e r svc) = Inl err \<longrightarrow>
            create_checkout_session e oid w =
              (Redirect OrderPage,
               w\<lparr>logged := logged w @ [''Stripe error: '' @ err],
                 flashes := flashes w @
                   [(''Payment processing error. Please try again or contact support.'', ''error'')]\<rparr>) \<and>
            orders (snd (create_checkout_session e oid w)) = orders w) \<and>
         (stripe_create e (build_checkout_request e r svc) = Inr cs \<longrightarrow>
            (\<exists>t. fst (create_checkout_session e oid w) = Redirect t) \<and>
            map_option stripe_session_id (get_order oid (snd (create_checkout_session e oid w))) =
              Some (Some (session_id cs))) \<and>
         (orders (snd (create_checkout_session e oid w)) \<noteq> orders w \<longrightarrow>
            (\<exists>cs'. stripe_create e (build_checkout_request e r svc) = Inr cs'))"
proof -
  note f = create_checkout_session_found [OF o k kn s]
  have a: "create_checkout_session e oid w =
              (Redirect OrderPage,
               w\<lparr>logged := logged w @ [''Stripe error: '' @ err],
                 flashes := flashes w @
                   [(''Payment processing error. Please try again or contact support.'', ''error'')]\<rparr>) \<and>
            orders (snd (create_checkout_session e oid w)) = orders w"
    if "stripe_create e (build_checkout_request e r svc) = Inl err"
    by (simp add: f that payment_error_def flash_def log_error_def)
  have b: "(\<exists>t. fst (create_checkout_session e oid w) = Redirect t) \<and>
            map_option stripe_session_id (get_order oid (snd (create_checkout_session e oid w))) =
              Some (Some (session_id cs))"
    if "stripe_create e (build_checkout_request e r svc) = Inr cs"
    using get_order_commit [OF o, of "r\<lparr>stripe_session_id := Some (session_id cs)\<rparr>"]
    by (simp add: f that)
  have c: "\<exists>cs'. stripe_create e (build_checkout_request e r svc) = Inr cs'"
    if "orders (snd (create_checkout_session e oid w)) \<noteq> orders w"
  proof (cases "stripe_create e (build_checkout_request e r svc)")
    case (Inl err')
    then have "orders (snd (create_checkout_session e oid w)) = orders w"
      by (simp add: f payment_error_def)
    with that show ?thesis by simp
  next
    case (Inr cs')
    then show ?thesis by blast
  qed
  show ?thesis using a b c by blast
qed

theorem create_checkout_session_failure_writes_nothing_witness:
  "stripe_create failing_env
      (build_checkout_request failing_env example_order example_service) = Inl ''timeout'' \<and>
   fst (create_checkout_session failing_env 1 example_world) = Redirect OrderPage \<and>
   orders (snd (create_checkout_session failing_env 1 example_world)) = orders example_world \<and>
   stripe_create example_env
      (build_checkout_request example_env example_order example_service) =
      Inr \<lparr>session_id = ''cs_test_1'', session_url = Some ''https://pay''\<rparr> \<and>
   map_option stripe_session_id
      (get_order 1 (snd (create_checkout_session example_env 1 example_world))) =
      Some (Some ''cs_test_1'')"
proof -
  have o: "get_order 1 example_world = Some example_order"
    by (simp add: get_order_def example_world_def example_order_def)
  have k: "stripe_api_key failing_env = Some ''sk_test''" "stripe_api_key example_env = Some ''sk_test''"
    by (simp_all add: failing_env_def example_env_def)
  have kn: "''sk_test'' \<noteq> []" by simp
  have s: "get_service (service_id example_order) example_world = Some example_service"
    by (simp add: get_service_def example_world_def example_order_def example_service_def)
  have f: "stripe_create failing_env
      (build_checkout_request failing_env example_order example_service) = Inl ''timeout''"
    by (simp add: failing_env_def example_env_def)
  have g: "stripe_create example_env
      (build_checkout_request example_env example_order example_service) =
      Inr \<lparr>session_id = ''cs_test_1'', session_url = Some ''https://pay''\<rparr>"
    by (simp add: example_env_def)
  show ?thesis
    using create_checkout_session_failure_writes_nothing
            [OF o k(1) kn s, of "''timeout''" "\<lparr>session_id = ''cs_test_1'', session_url = Some ''https://pay''\<rparr>"]
          create_checkout_session_failure_writes_nothing
            [OF o k(2) kn s, of "''timeout''" "\<lparr>session_id = ''cs_test_1'', session_url = Some ''https://pay''\<rparr>"]
          f g
    by simp
qed

subsection \<open>C7\<close>

text \<open>C7 (as amended). When both the order id and the email are supplied and non-empty
  and no order matches both, the outcome is the same not-found message on the tracking page,
  whichever field was wrong; an order is shown only when both fields match that same order;
  and when either field is missing or empty the blank tracking page is rendered with no
  lookup and no message.\<close>

theorem track_order_outcomes:
  "(oid \<noteq> [] \<and> em \<noteq> [] \<and>
    (\<forall>r \<in> set (orders w). \<not> (coerce_id e oid = Some (id_order r) \<and> email r = em)) \<longrightarrow>
      track_order e (Some oid) (Some em) w =
        (Render ''track_order.html'',
         flash ''Order not found. Please check your order ID and email.'' ''error'' w)) \<and>
   (fst (track_order e a b w) = RenderTracking r ts \<longrightarrow>
      (\<exists>oid' em'. a = Some oid' \<and> b = Some em' \<and> r \<in> set (orders w) \<and>
         coerce_id e oid' = Some (id_order r) \<and> email r = em')) \<and>
   (a = None \<or> a = Some [] \<or> b = None \<or> b = Some [] \<longrightarrow>
      track_order e a b w = (Render ''track_order.html'', w))"
proof -
  have one: "track_order e (Some oid) (Some em) w =
        (Render ''track_order.html'',
         flash ''Order not found. Please check your order ID and email.'' ''error'' w)"
    if "oid \<noteq> []" "em \<noteq> []"
      "\<forall>r \<in> set (orders w). \<not> (coerce_id e oid = Some (id_order r) \<and> email r = em)"
  proof -
    from that(3)
    have "find (\<lambda>r. coerce_id e oid = Some (id_order r) \<and> email r = em) (orders w) = None"
      by (simp add: find_None_iff)
    with that(1,2) show ?thesis by (simp add: track_order_def)
  qed
  have two: "\<exists>oid' em'. a = Some oid' \<and> b = Some em' \<and> r \<in> set (orders w) \<and>
         coerce_id e oid' = Some (id_order r) \<and> email r = em'"
    if "fst (track_order e a b w) = RenderTracking r ts"
    using that
    by (auto simp: track_order_def Let_def find_Some_iff split: option.splits if_splits)
  have three: "track_order e a b w = (Render ''track_order.html'', w)"
    if "a = None \<or> a = Some [] \<or> b = None \<or> b = Some []"
    using that by (auto simp: track_order_def split: option.splits)
  show ?thesis using one two three by blast
qed

theorem track_order_outcomes_witness:
  "track_order example_env (Some ''1'') (Some ''eve@example.org'') example_world =
     (Render ''track_order.html'',
      flash ''Order not found. Please check your order ID and email.'' ''error'' example_world) \<and>
   track_order example_env (Some ''2'') (Some ''ada@example.org'') example_world =
     (Render ''track_order.html'',
      flash ''Order not found. Please check your order ID and email.'' ''error'' example_world) \<and>
   fst (track_order example_env (Some ''1'') (Some ''ada@example.org'') example_world) =
     RenderTracking example_order [] \<and>
   track_order example_env (Some ''1'') None example_world = (Render ''track_order.html'', example_world)"
proof -
  have a: "''1'' \<noteq> [] \<and> ''eve@example.org'' \<noteq> [] \<and>
    (\<forall>r \<in> set (orders example_world).
       \<not> (coerce_id example_env ''1'' = Some (id_order r) \<and> email r = ''eve@example.org''))"
    by (simp add: example_defs)
  have b: "''2'' \<noteq> [] \<and> ''ada@example.org'' \<noteq> [] \<and>
    (\<forall>r \<in> set (orders example_world).
       \<not> (coerce_id example_env ''2'' = Some (id_order r) \<and> email r = ''ada@example.org''))"
    by (simp add: example_defs)
  have c: "fst (track_order example_env (Some ''1'') (Some ''ada@example.org'') example_world) =
     RenderTracking example_order []"
    by (simp add: track_order_def Let_def example_defs)
  show ?thesis
    using track_order_outcomes [of "''1''" "''eve@example.org''" example_world example_env
            "Some ''1''" None example_order "[]"]
          track_order_outcomes [of "''2''" "''ada@example.org''" example_world example_env
            "Some ''1''" "Some ''ada@example.org''" example_order "[]"]
          a b c
    by simp
qed

text \<open>The right id with an empty email gets the blank page, not the not-found message
  that the right id with a wrong email gets.\<close>

theorem track_order_empty_email_counterexample:
  "flashes (snd (track_order example_env (Some ''1'') (Some []) example_world)) = [] \<and>
   flashes (snd (track_order example_env (Some ''1'') (Some ''eve@example.org'') example_world)) =
     [(''Order not found. Please check your order ID and email.'', ''error'')]"
  by (simp add: track_order_def Let_def flash_def example_defs)

subsection \<open>C8\<close>

text \<open>C8 (as amended). When the form validates, the selected service exists, the uploads
  are saved and the stored price of the requested tier (\<open>price_basic\<close> for basic,
  \<open>price_standard\<close> for standard, \<open>price_premium\<close> for premium) is set and nonzero,
  submit_order adds exactly one order whose \<open>total_amount\<close> is that stored price, with
  \<open>status = pending\<close> and \<open>payment_status = unpaid\<close>, and redirects to its checkout.\<close>

theorem submit_order_total_amount:
  assumes v: "validates form" and s: "get_service (f_service_id form) w = Some svc"
    and t: "f_service_tier form = ''basic'' \<and> price_basic svc = Some amount \<or>
            f_service_tier form = ''standard'' \<and> price_standard svc = Some amount \<or>
            f_service_tier form = ''premium'' \<and> price_premium svc = Some amount"
    and nz: "amount \<noteq> 0" and ok: "\<forall>path. \<not> save_raises e path"
  shows "\<exists>r. orders (snd (submit_order e form w)) = orders w @ [r] \<and>
           total_amount r = amount \<and> status r = ''pending'' \<and> payment_status r = ''unpaid'' \<and>
           fst (submit_order e form w) = Redirect (CreateCheckoutSession (id_order r))"
proof -
  from t have p: "tier_prices svc (f_service_tier form) = Some amount"
    by (auto simp: tier_prices_def)
  from submit_order_creates [OF v s p nz ok] obtain r w4 where
    "orders w4 = orders w @ [r]" "total_amount r = amount" "status r = ''pending''"
    "payment_status r = ''unpaid''"
    "submit_order e form w =
        (Redirect (CreateCheckoutSession (id_order r)),
         swallow ''Failed to send confirmation email: '' w4
           (send_order_confirmation_email e r w4))"
    by blast
  then show ?thesis by (intro exI [of _ r]) simp
qed

theorem submit_order_total_amount_witness:
  "price_basic example_service = Some 99 \<and> price_premium example_service = Some 299 \<and>
   (\<exists>r. orders (snd (submit_order example_env (example_form\<lparr>f_service_tier := ''basic''\<rparr>)
             example_world)) = orders example_world @ [r] \<and>
         total_amount r = 99 \<and> status r = ''pending'' \<and> payment_status r = ''unpaid'' \<and>
         fst (submit_order example_env (example_form\<lparr>f_service_tier := ''basic''\<rparr>) example_world) =
           Redirect (CreateCheckoutSession (id_order r))) \<and>
   (\<exists>r. orders (snd (submit_order example_env example_form example_world)) =
           orders example_world @ [r] \<and>
         total_amount r = 299 \<and> status r = ''pending'' \<and> payment_status r = ''unpaid'' \<and>
         fst (submit_order example_env example_form example_world) =
           Redirect (CreateCheckoutSession (id_order r)))"
proof -
  have v: "validates (example_form\<lparr>f_service_tier := ''basic''\<rparr>)" "validates example_form"
    by (simp_all add: example_form_def)
  have s: "get_service (f_service_id (example_form\<lparr>f_service_tier := ''basic''\<rparr>)) example_world =
             Some example_service"
          "get_service (f_service_id example_form) example_world = Some example_service"
    by (simp_all add: get_service_def example_form_def example_world_def example_service_def)
  have b: "f_service_tier (example_form\<lparr>f_service_tier := ''basic''\<rparr>) = ''basic'' \<and>
             price_basic example_service = Some 99 \<or>
           f_service_tier (example_form\<lparr>f_service_tier := ''basic''\<rparr>) = ''standard'' \<and>
             price_standard example_service = Some 99 \<or>
           f_service_tier (example_form\<lparr>f_service_tier := ''basic''\<rparr>) = ''premium'' \<and>
             price_premium example_service = Some 99"
    by (simp add: example_service_def)
  have p: "f_service_tier example_form = ''basic'' \<and> price_basic example_service = Some 299 \<or>
           f_service_tier example_form = ''standard'' \<and> price_standard example_service = Some 299 \<or>
           f_service_tier example_form = ''premium'' \<and> price_premium example_service = Some 299"
    by (simp add: example_form_def example_service_def)
  have n: "(99::rat) \<noteq> 0" "(299::rat) \<noteq> 0" by simp_all
  have f: "\<forall>path. \<not> save_raises example_env path" by (simp add: example_env_def)
  have c: "price_basic example_service = Some 99 \<and> price_premium example_service = Some 299"
    by (simp add: example_service_def)
  show ?thesis
    using submit_order_total_amount [OF v(1) s(1) b n(1) f]
          submit_order_total_amount [OF v(2) s(2) p n(2) f] c
    by blast
qed

text \<open>A tier whose stored price is 0 is a tier of the service, yet submitting it creates
  no order.\<close>

theorem submit_order_zero_price_creates_no_order:
  "validates (example_form\<lparr>f_service_tier := ''standard''\<rparr>) \<and>
   get_service (f_service_id (example_form\<lparr>f_service_tier := ''standard''\<rparr>)) example_world =
     Some example_service \<and>
   price_standard example_service = Some 0 \<and>
   orders (snd (submit_order example_env (example_form\<lparr>f_service_tier := ''standard''\<rparr>)
      example_world)) = orders example_world"
  by (simp add: submit_order_def tier_prices_def route_defs example_defs example_form_def)

subsection \<open>C9\<close>

text \<open>C9. With a mail transport that raises on every send: order creation still adds
  the order and redirects to checkout, payment reconciliation still marks the order paid and
  in progress and renders the success page, and a status update that changes the status
  still stores it and redirects; in each case nothing reaches the outbox and the failure is
  logged.\<close>

theorem notification_failure_keeps_state_change:
  assumes c: "mail_configured e" and raises: "\<forall>m. \<not> mail_send e m"
  shows "(validates form \<and> get_service (f_service_id form) w = Some svc \<and>
          tier_prices svc (f_service_tier form) = Some amount \<and> amount \<noteq> 0 \<and>
          (\<forall>path. \<not> save_raises e path) \<longrightarrow>
            (\<exists>r err. orders (snd (submit_order e form w)) = orders w @ [r] \<and>
               fst (submit_order e form w) = Redirect (CreateCheckoutSession (id_order r)) \<and>
               outbox (snd (submit_order e form w)) = outbox w \<and>
               logged (snd (submit_order e form w)) =
                 logged w @ [''Failed to send confirmation email: '' @ err])) \<and>
         (sid \<noteq> [] \<and> find (\<lambda>x. stripe_session_id x = Some sid) (orders w) = Some r1 \<longrightarrow>
            (\<exists>err. fst (payment_success e (Some sid) w) =
                 RenderOrder ''success.html''
                   (r1\<lparr>payment_status := ''paid'', status := ''in_progress''\<rparr>) \<and>
               find (\<lambda>x. stripe_session_id x = Some sid) (orders (snd (payment_success e (Some sid) w))) =
                 Some (r1\<lparr>payment_status := ''paid'', status := ''in_progress''\<rparr>) \<and>
               outbox (snd (payment_success e (Some sid) w)) = outbox w \<and>
               logged (snd (payment_success e (Some sid) w)) =
                 logged w @ [''Failed to send payment confirmation email: '' @ err])) \<and>
         (get_order oid w = Some r2 \<and> status_validates sform \<and> f_status sform \<noteq> status r2 \<longrightarrow>
            (\<exists>err. fst (admin_update_order e oid sform w) = Redirect (AdminOrderDetail oid) \<and>
               map_option status (get_order oid (snd (admin_update_order e oid sform w))) =
                 Some (f_status sform) \<and>
               outbox (snd (admin_update_order e oid sform w)) = outbox w \<and>
               logged (snd (admin_update_order e oid sform w)) =
                 logged w @ [''Failed to send status update email: '' @ err]))"
proof -
  have one: "\<exists>r err. orders (snd (submit_order e form w)) = orders w @ [r] \<and>
               fst (submit_order e form w) = Redirect (CreateCheckoutSession (id_order r)) \<and>
               outbox (snd (submit_order e form w)) = outbox w \<and>
               logged (snd (submit_order e form w)) =
                 logged w @ [''Failed to send confirmation email: '' @ err]"
    if h: "validates form" "get_service (f_service_id form) w = Some svc"
          "tier_prices svc (f_service_tier form) = Some amount" "amount \<noteq> 0"
          "\<forall>path. \<not> save_raises e path"
  proof -
    from submit_order_creates [OF h] obtain r w4 where
      x: "orders w4 = orders w @ [r]" "outbox w4 = outbox w" "logged w4 = logged w"
        "submit_order e form w =
          (Redirect (CreateCheckoutSession (id_order r)),
           swallow ''Failed to send confirmation email: '' w4
             (send_order_confirmation_email e r w4))"
      by blast
    from send_order_raises [OF c raises] obtain err where
      "send_order_confirmation_email e r w4 = Inl err" by blast
    then have "snd (submit_order e form w) =
        w4\<lparr>logged := logged w4 @ [''Failed to send confirmation email: '' @ err]\<rparr>"
      by (simp add: x(4) swallow_raised)
    then show ?thesis using x by (intro exI [of _ r] exI [of _ err]) simp
  qed
  have two: "\<exists>err. fst (payment_success e (Some sid) w) =
                 RenderOrder ''success.html''
                   (r1\<lparr>payment_status := ''paid'', status := ''in_progress''\<rparr>) \<and>
               find (\<lambda>x. stripe_session_id x = Some sid) (orders (snd (payment_success e (Some sid) w))) =
                 Some (r1\<lparr>payment_status := ''paid'', status := ''in_progress''\<rparr>) \<and>
               outbox (snd (payment_success e (Some sid) w)) = outbox w \<and>
               logged (snd (payment_success e (Some sid) w)) =
                 logged w @ [''Failed to send payment confirmation email: '' @ err]"
    if h: "sid \<noteq> []" "find (\<lambda>x. stripe_session_id x = Some sid) (orders w) = Some r1"
  proof -
    let ?r = "r1\<lparr>payment_status := ''paid'', status := ''in_progress''\<rparr>"
    note f = payment_success_found [OF h, of e]
    have tok: "stripe_session_id r1 = Some sid" using h(2) by (auto simp: find_Some_iff)
    from send_payment_raises [OF c raises] obtain err where
      "send_payment_confirmation_email e ?r (commit_order ?r w) = Inl err" by blast
    then have s: "snd (payment_success e (Some sid) w) =
        (commit_order ?r w)\<lparr>logged := logged w @ [''Failed to send payment confirmation email: '' @ err]\<rparr>"
      by (simp add: f swallow_raised)
    have "find (\<lambda>x. stripe_session_id x = Some sid) (orders (commit_order ?r w)) = Some ?r"
      unfolding commit_order_def using find_replace_row [OF h(2), of ?r] tok by simp
    then show ?thesis using s by (intro exI [of _ err]) (simp add: f)
  qed
  have three: "\<exists>err. fst (admin_update_order e oid sform w) = Redirect (AdminOrderDetail oid) \<and>
               map_option status (get_order oid (snd (admin_update_order e oid sform w))) =
                 Some (f_status sform) \<and>
               outbox (snd (admin_update_order e oid sform w)) = outbox w \<and>
               logged (snd (admin_update_order e oid sform w)) =
                 logged w @ [''Failed to send status update email: '' @ err]"
    if h: "get_order oid w = Some r2" "status_validates sform" "f_status sform \<noteq> status r2"
  proof -
    let ?r = "if f_status sform = ''completed'' \<and> status r2 \<noteq> ''completed''
        then r2\<lparr>status := f_status sform, admin_notes := f_admin_notes sform,
               updated_at := utcnow e, completed_at := Some (utcnow e)\<rparr>
        else r2\<lparr>status := f_status sform, admin_notes := f_admin_notes sform,
               updated_at := utcnow e\<rparr>"
    let ?w1 = "flash ''Order updated successfully.'' ''success'' (commit_order ?r w)"
    have st: "status r2 \<noteq> status ?r" using h(3) by auto
    from send_status_raises [OF c raises st] obtain err where
      err: "send_status_update_email e ?r (status r2) ?w1 = Inl err" by blast
    have u: "admin_update_order e oid sform w =
        (Redirect (AdminOrderDetail oid),
         swallow ''Failed to send status update email: '' ?w1
           (send_status_update_email e ?r (status r2) ?w1))"
      using h(1,2) by (simp add: admin_update_order_def Let_def)
    have s: "snd (admin_update_order e oid sform w) =
        ?w1\<lparr>logged := logged w @ [''Failed to send status update email: '' @ err]\<rparr>"
      using swallow_raised [OF err] by (simp add: u)
    have "outbox (snd (admin_update_order e oid sform w)) = outbox w"
      unfolding s by (simp add: flash_def)
    then show ?thesis
      using s admin_update_order_row [OF h(1,2), of e]
      by (intro exI [of _ err]) (simp add: u)
  qed
  show ?thesis using one two three by blast
qed

theorem notification_failure_keeps_state_change_witness:
  "(\<exists>r err. orders (snd (submit_order raising_env example_form example_world)) =
        orders example_world @ [r] \<and>
      fst (submit_order raising_env example_form example_world) =
        Redirect (CreateCheckoutSession (id_order r)) \<and>
      outbox (snd (submit_order raising_env example_form example_world)) = outbox example_world \<and>
      logged (snd (submit_order raising_env example_form example_world)) =
        logged example_world @ [''Failed to send confirmation email: '' @ err]) \<and>
   (\<exists>err. fst (payment_success raising_env (Some ''cs_test_1'') example_world) =
        RenderOrder ''success.html''
          (example_order\<lparr>payment_status := ''paid'', status := ''in_progress''\<rparr>) \<and>
      find (\<lambda>x. stripe_session_id x = Some ''cs_test_1'')
        (orders (snd (payment_success raising_env (Some ''cs_test_1'') example_world))) =
        Some (example_order\<lparr>payment_status := ''paid'', status := ''in_progress''\<rparr>) \<and>
      outbox (snd (payment_success raising_env (Some ''cs_test_1'') example_world)) =
        outbox example_world \<and>
      logged (snd (payment_success raising_env (Some ''cs_test_1'') example_world)) =
        logged example_world @ [''Failed to send payment confirmation email: '' @ err]) \<and>
   (\<exists>err. fst (admin_update_order raising_env 1
          \<lparr>status_validates = True, f_status = ''cancelled'', f_admin_notes = []\<rparr> example_world) =
        Redirect (AdminOrderDetail 1) \<and>
      map_option status (get_order 1 (snd (admin_update_order raising_env 1
          \<lparr>status_validates = True, f_status = ''cancelled'', f_admin_notes = []\<rparr> example_world))) =
        Some ''cancelled'' \<and>
      outbox (snd (admin_update_order raising_env 1
          \<lparr>status_validates = True, f_status = ''cancelled'', f_admin_notes = []\<rparr> example_world)) =
        outbox example_world \<and>
      logged (snd (admin_update_order raising_env 1
          \<lparr>status_validates = True, f_status = ''cancelled'', f_admin_notes = []\<rparr> example_world)) =
        logged example_world @ [''Failed to send status update email: '' @ err])"
proof -
  have c: "mail_configured raising_env" by (simp add: raising_env_def example_env_def)
  have r: "\<forall>m. \<not> mail_send raising_env m" by (simp add: raising_env_def)
  have h1: "validates example_form \<and>
      get_service (f_service_id example_form) example_world = Some example_service \<and>
      tier_prices example_service (f_service_tier example_form) = Some 299 \<and> (299::rat) \<noteq> 0 \<and>
      (\<forall>path. \<not> save_raises raising_env path)"
    by (simp add: get_service_def tier_prices_def example_form_def example_world_def
        example_service_def raising_env_def example_env_def)
  have h2: "''cs_test_1'' \<noteq> [] \<and>
      find (\<lambda>x. stripe_session_id x = Some ''cs_test_1'') (orders example_world) =
        Some example_order"
    by (simp add: example_world_def example_order_def)
  have h3: "get_order 1 example_world = Some example_order \<and>
      status_validates \<lparr>status_validates = True, f_status = ''cancelled'', f_admin_notes = []\<rparr> \<and>
      f_status \<lparr>status_validates = True, f_status = ''cancelled'', f_admin_notes = []\<rparr> \<noteq>
        status example_order"
    by (simp add: get_order_def example_world_def example_order_def)
  show ?thesis
    using notification_failure_keeps_state_change [OF c r, of example_form example_world
        example_service 299 "''cs_test_1''" example_order 1 example_order
        "\<lparr>status_validates = True, f_status = ''cancelled'', f_admin_notes = []\<rparr>"]
      h1 h2 h3
    by simp
qed

subsection \<open>C10\<close>

text \<open>C10. When the selected service's price for the requested tier is null, zero or
  the tier is unknown, submit_order flashes the invalid-tier message, renders the order form
  again and creates no order; and whenever submit_order changes the orders table, the form
  validated and the tier's price was non-null and nonzero.\<close>

theorem submit_order_falsy_price_rejected:
  "(validates form \<and> get_service (f_service_id form) w = Some svc \<and>
      (tier_prices svc (f_service_tier form) = None \<or>
       tier_prices svc (f_service_tier form) = Some 0) \<longrightarrow>
        submit_order e form w =
          (Render ''order.html'', flash ''Invalid service tier selected.'' ''error'' w) \<and>
        orders (snd (submit_order e form w)) = orders w) \<and>
   (orders (snd (submit_order e form w)) \<noteq> orders w \<longrightarrow>
      validates form \<and>
      (\<exists>svc' amount. get_service (f_service_id form) w = Some svc' \<and>
         tier_prices svc' (f_service_tier form) = Some amount \<and> amount \<noteq> 0))"
  using submit_order_rejects_tier [of form w svc e] submit_order_orders_changed [of e form w]
  by auto

theorem submit_order_falsy_price_rejected_witness:
  "tier_prices example_service ''standard'' = Some 0 \<and>
   submit_order example_env (example_form\<lparr>f_service_tier := ''standard''\<rparr>) example_world =
     (Render ''order.html'', flash ''Invalid service tier selected.'' ''error'' example_world) \<and>
   orders (snd (submit_order example_env (example_form\<lparr>f_service_tier := ''standard''\<rparr>)
      example_world)) = orders example_world \<and>
   orders (snd (submit_order example_env example_form example_world)) \<noteq> orders example_world \<and>
   (\<exists>svc' amount. get_service (f_service_id example_form) example_world = Some svc' \<and>
      tier_prices svc' (f_service_tier example_form) = Some amount \<and> amount \<noteq> 0)"
proof -
  have a: "validates (example_form\<lparr>f_service_tier := ''standard''\<rparr>)" by (simp add: example_form_def)
  have b: "get_service (f_service_id (example_form\<lparr>f_service_tier := ''standard''\<rparr>)) example_world =
             Some example_service"
    by (simp add: get_service_def example_form_def example_world_def example_service_def)
  have c: "tier_prices example_service ''standard'' = Some 0"
    by (simp add: tier_prices_def example_service_def)
  have d: "orders (snd (submit_order example_env example_form example_world)) \<noteq> orders example_world"
    by (simp add: submit_order_def save_upload_def add_order_def tier_prices_def
        send_order_confirmation_email_def new_order_def route_defs example_defs example_form_def
        split_beta)
  show ?thesis
    using submit_order_falsy_price_rejected
            [of "example_form\<lparr>f_service_tier := ''standard''\<rparr>" example_world example_service example_env]
          submit_order_falsy_price_rejected
            [of example_form example_world example_service example_env]
          a b c d
    by simp
qed

end
